theory Spec2Isabelle
  imports Complex_Main
begin

section \<open>Strings\<close>

text \<open>
  A JavaScript string is modelled as a \<open>string\<close>; a \<open>char\<close> stands for a code unit
  below 256. \<open>String.prototype.trim\<close> removes the WhiteSpace and LineTerminator
  characters from both ends; in that range they are TAB, LF, VT, FF, CR, SPACE and
  NBSP (code 160).
\<close>

definition is_ws :: "char \<Rightarrow> bool" where
  "is_ws c = (of_char c \<in> {9, 10, 11, 12, 13, 32, 160 :: nat})"

definition trimStart :: "string \<Rightarrow> string" where
  "trimStart s = dropWhile is_ws s"

definition trimEnd :: "string \<Rightarrow> string" where
  "trimEnd s = rev (dropWhile is_ws (rev s))"

definition trim :: "string \<Rightarrow> string" where
  "trim s = trimEnd (trimStart s)"

text \<open>The line feed of the template literals \<open>\n\n\<close>.\<close>

definition LF :: char where
  "LF = CHR 0x0A"

section \<open>Numbers and untyped values\<close>

text \<open>
  A JavaScript Number: NaN, the two infinities, or a finite value. The sign of zero is
  not modelled (\<open>Fin 0\<close> stands for both zeros).
\<close>

datatype jsnum = NaN | NegInf | Fin real | PosInf

text \<open>
  A value of type \<open>unknown\<close>: what \<open>JSON.parse\<close> returns, or \<open>undefined\<close> for a
  property that is not there. An object is the association list of its properties.
\<close>

datatype json =
    JUndefined
  | JNull
  | JBool bool
  | JNum jsnum
  | JStr string
  | JArr "json list"
  | JObj "(string \<times> json) list"

text \<open>\<open>typeof v\<close>.\<close>

fun typeof :: "json \<Rightarrow> string" where
  "typeof JUndefined = ''undefined''"
| "typeof JNull = ''object''"
| "typeof (JBool b) = ''boolean''"
| "typeof (JNum n) = ''number''"
| "typeof (JStr s) = ''string''"
| "typeof (JArr xs) = ''object''"
| "typeof (JObj kvs) = ''object''"

text \<open>Truthiness, as \<open>!v\<close> and \<open>v && ...\<close> test it.\<close>

fun truthy :: "json \<Rightarrow> bool" where
  "truthy JUndefined = False"
| "truthy JNull = False"
| "truthy (JBool b) = b"
| "truthy (JNum n) = (n \<noteq> NaN \<and> n \<noteq> Fin 0)"
| "truthy (JStr s) = (s \<noteq> [])"
| "truthy (JArr xs) = True"
| "truthy (JObj kvs) = True"

text \<open>
  The property read \<open>v.k\<close> on a truthy value of type object, for the names the
  program reads (\<open>choices\<close>, \<open>message\<close>, \<open>content\<close>, \<open>text\<close>, \<open>error\<close>): an
  array has none of them, since its properties are its indices and \<open>length\<close>.
\<close>

fun get_prop :: "json \<Rightarrow> string \<Rightarrow> json" where
  "get_prop (JObj kvs) k = (case map_of kvs k of None \<Rightarrow> JUndefined | Some v \<Rightarrow> v)"
| "get_prop v k = JUndefined"

section \<open>Thrown values\<close>

text \<open>
  What a \<open>throw\<close> or a rejected promise carries: the class \<open>HttpStatusError\<close> with
  its status and response body, a plain \<open>Error\<close> with its message, or a value that
  is no \<open>Error\<close> at all.
\<close>

datatype thrown =
    HttpStatusError nat json
  | Error string
  | NonError

section \<open>The reply extractor\<close>

text \<open>The callback of \<open>content.map\<close> in \<open>normalizeReplyContent\<close>.\<close>

definition part_text :: "json \<Rightarrow> string" where
  "part_text part =
     (if typeof part = ''string'' then (case part of JStr s \<Rightarrow> s | _ \<Rightarrow> [])
      else if truthy part \<and> typeof part = ''object'' then
        (case get_prop part ''text'' of JStr t \<Rightarrow> t | _ \<Rightarrow> [])
      else [])"

definition normalizeReplyContent :: "json \<Rightarrow> string" where
  "normalizeReplyContent content =
     (case content of
        JStr s \<Rightarrow> trim s
      | JArr parts \<Rightarrow> trim (concat (map part_text parts))
      | _ \<Rightarrow> [])"

definition extractReply :: "json \<Rightarrow> thrown + string" where
  "extractReply data =
     (if \<not> truthy data \<or> typeof data \<noteq> ''object'' then
        Inl (Error ''API Error: invalid response payload'')
      else
        (case get_prop data ''choices'' of
           JArr (firstChoice # rest) \<Rightarrow>
             (if \<not> truthy firstChoice \<or> typeof firstChoice \<noteq> ''object'' then
                Inl (Error ''API Error: invalid completion choice'')
              else
                let message = get_prop firstChoice ''message'' in
                if \<not> truthy message \<or> typeof message \<noteq> ''object'' then
                  Inl (Error ''API Error: invalid completion message'')
                else
                  let reply = normalizeReplyContent (get_prop message ''content'') in
                  if reply = [] then Inl (Error ''API Error: empty completion message'')
                  else Inr reply)
         | _ \<Rightarrow> Inl (Error ''API Error: no completion choices returned'')))"

text \<open>
  The shape the specification requires of a response body, stated from its words: a
  non-null object with a non-empty array field \<open>choices\<close>, whose first element is an
  object with an object field \<open>message\<close>, whose \<open>content\<close> is a string or a
  sequence. The result is that content, or \<open>None\<close> on any deviation.
\<close>

definition reply_content :: "json \<Rightarrow> json option" where
  "reply_content body =
     (case body of
        JObj members \<Rightarrow>
          (case map_of members ''choices'' of
             Some (JArr (JObj choice # rest)) \<Rightarrow>
               (case map_of choice ''message'' of
                  Some (JObj message) \<Rightarrow>
                    (case map_of message ''content'' of
                       Some (JStr s) \<Rightarrow> Some (JStr s)
                     | Some (JArr parts) \<Rightarrow> Some (JArr parts)
                     | _ \<Rightarrow> None)
                | _ \<Rightarrow> None)
           | _ \<Rightarrow> None)
      | _ \<Rightarrow> None)"

text \<open>
  The normalization of the content as the specification describes it: a string is
  trimmed; in a sequence a string entry passes through, an object entry contributes
  its \<open>text\<close> field when that is a string, anything else contributes nothing, and
  the concatenation in order is trimmed.
\<close>

fun entry_text :: "json \<Rightarrow> string" where
  "entry_text (JStr s) = s"
| "entry_text (JObj members) = (case map_of members ''text'' of Some (JStr t) \<Rightarrow> t | _ \<Rightarrow> [])"
| "entry_text v = []"

fun normalized_content :: "json \<Rightarrow> string" where
  "normalized_content (JStr s) = trim s"
| "normalized_content (JArr entries) = trim (concat (map entry_text entries))"
| "normalized_content v = []"

section \<open>Option normalizers\<close>

text \<open>The comparison \<open>a < b\<close> of two Numbers: false as soon as one of them is NaN.\<close>

fun num_lt :: "jsnum \<Rightarrow> jsnum \<Rightarrow> bool" where
  "num_lt NaN b = False"
| "num_lt a NaN = False"
| "num_lt a NegInf = False"
| "num_lt NegInf b = True"
| "num_lt PosInf b = False"
| "num_lt (Fin x) PosInf = True"
| "num_lt (Fin x) (Fin y) = (x < y)"

text \<open>\<open>Math.min\<close> and \<open>Math.max\<close> of two arguments: NaN if either is NaN.\<close>

definition Math_min :: "jsnum \<Rightarrow> jsnum \<Rightarrow> jsnum" where
  "Math_min a b = (if a = NaN \<or> b = NaN then NaN else if num_lt b a then b else a)"

definition Math_max :: "jsnum \<Rightarrow> jsnum \<Rightarrow> jsnum" where
  "Math_max a b = (if a = NaN \<or> b = NaN then NaN else if num_lt a b then b else a)"

definition DEFAULT_TEMPERATURE :: jsnum where
  "DEFAULT_TEMPERATURE = Fin 1"

definition DEFAULT_MAX_TOKENS :: jsnum where
  "DEFAULT_MAX_TOKENS = Fin 1024"

text \<open>
  \<open>Number.parseFloat\<close> belongs to the host, not to the program: it is the parameter
  \<open>parseFloat\<close>. The template literal of the default temperature \<open>1.0\<close> is the
  string \<open>1\<close>.
\<close>

definition parseTemperature :: "(string \<Rightarrow> jsnum) \<Rightarrow> string option \<Rightarrow> jsnum" where
  "parseTemperature parseFloat raw =
     (let parsed = parseFloat (case raw of None \<Rightarrow> ''1'' | Some r \<Rightarrow> r) in
      if parsed = NaN then DEFAULT_TEMPERATURE
      else Math_max (Fin 0) (Math_min (Fin 2) parsed))"

text \<open>
  Clamping into \<open>[0, 2]\<close> as the specification describes it, on the Numbers that
  are not NaN: an infinity goes to the nearer bound.
\<close>

definition clamp_0_2 :: "jsnum \<Rightarrow> jsnum" where
  "clamp_0_2 v =
     (case v of
        NaN \<Rightarrow> NaN
      | NegInf \<Rightarrow> Fin 0
      | PosInf \<Rightarrow> Fin 2
      | Fin x \<Rightarrow> Fin (max 0 (min 2 x)))"

text \<open>
  \<open>Number.parseInt(s, 10)\<close>: leading white space is skipped, one sign is read, then the
  longest run of decimal digits; no digit gives NaN. The integer read becomes a Number
  by rounding to 53 significant bits, ties to even, and overflows to an infinity from
  \<open>2 ^ 1024 - 2 ^ 970\<close> on. (Beyond 20 significant digits an engine may round the
  digits first; that changes neither the sign nor whether the value overflows.)
\<close>

definition is_digit :: "char \<Rightarrow> bool" where
  "is_digit c = (48 \<le> (of_char c :: nat) \<and> (of_char c :: nat) \<le> 57)"

definition digits_value :: "string \<Rightarrow> nat" where
  "digits_value ds = foldl (\<lambda>acc c. 10 * acc + (of_char c - 48)) 0 ds"

fun bit_length :: "nat \<Rightarrow> nat" where
  "bit_length n = (if n = 0 then 0 else Suc (bit_length (n div 2)))"

definition binary64_of_nat :: "nat \<Rightarrow> nat option" where
  "binary64_of_nat n =
     (if n < 2 ^ 53 then Some n
      else
        let e = bit_length n - 53;
            q = n div 2 ^ e;
            r = n mod 2 ^ e;
            half = 2 ^ (e - 1);
            q' = (if half < r \<or> (r = half \<and> odd q) then q + 1 else q);
            v = q' * 2 ^ e
        in if 2 ^ 1024 \<le> v then None else Some v)"

definition parseInt10 :: "string \<Rightarrow> jsnum" where
  "parseInt10 s =
     (let S = trimStart s;
          negative = (case S of c # cs \<Rightarrow> c = CHR ''-'' | [] \<Rightarrow> False);
          S' = (case S of c # cs \<Rightarrow> if c = CHR ''+'' \<or> c = CHR ''-'' then cs else S | [] \<Rightarrow> S);
          Z = takeWhile is_digit S'
      in if Z = [] then NaN
         else
           (case binary64_of_nat (digits_value Z) of
              None \<Rightarrow> if negative then NegInf else PosInf
            | Some v \<Rightarrow> Fin (if negative then - real v else real v)))"

definition parseMaxTokens :: "string option \<Rightarrow> jsnum" where
  "parseMaxTokens raw =
     (let parsed = parseInt10 (case raw of None \<Rightarrow> ''1024'' | Some r \<Rightarrow> r) in
      if parsed = NaN \<or> num_lt parsed (Fin 1) then DEFAULT_MAX_TOKENS
      else parsed)"


section \<open>Prompt assembly\<close>

datatype role = System | User

record ChatMessage =
  role :: role
  content :: string

text \<open>\<open>s.startsWith(t)\<close> and \<open>s.includes(t)\<close>.\<close>

fun starts_with :: "string \<Rightarrow> string \<Rightarrow> bool" where
  "starts_with s [] = True"
| "starts_with [] (t # ts) = False"
| "starts_with (c # cs) (t # ts) = (c = t \<and> starts_with cs ts)"

fun str_includes :: "string \<Rightarrow> string \<Rightarrow> bool" where
  "str_includes [] t = (t = [])"
| "str_includes (c # cs) t = (starts_with (c # cs) t \<or> str_includes cs t)"

text \<open>
  \<open>String.prototype.replace\<close> with a replacement string expands that string as a
  template at every match (GetSubstitution): \<open>$$\<close> gives a dollar sign, \<open>$&\<close> the
  matched text, a dollar sign with a backquote the text before the match, with a quote
  the text after it; the pattern has no capture group, so any other dollar sign stays
  as it is.
\<close>

fun getSubstitution :: "string \<Rightarrow> string \<Rightarrow> string \<Rightarrow> string \<Rightarrow> string" where
  "getSubstitution matched preceding following [] = []"
| "getSubstitution matched preceding following [c] = [c]"
| "getSubstitution matched preceding following (c # d # rest) =
     (if c = CHR ''$'' \<and> d = CHR ''$'' then
        CHR ''$'' # getSubstitution matched preceding following rest
      else if c = CHR ''$'' \<and> d = CHR ''&'' then
        matched @ getSubstitution matched preceding following rest
      else if c = CHR ''$'' \<and> d = CHR 0x60 then
        preceding @ getSubstitution matched preceding following rest
      else if c = CHR ''$'' \<and> d = CHR 0x27 then
        following @ getSubstitution matched preceding following rest
      else c # getSubstitution matched preceding following (d # rest))"

text \<open>
  \<open>prompt.replace(/{{text}}/g, replaceValue)\<close>: the matches are taken from left to
  right without overlap; \<open>preceding\<close> is the part of the prompt already passed.
\<close>

function replace_text_token :: "string \<Rightarrow> string \<Rightarrow> string \<Rightarrow> string" where
  "replace_text_token preceding [] replaceValue = []"
| "replace_text_token preceding (c # cs) replaceValue =
     (if starts_with (c # cs) ''{{text}}'' then
        getSubstitution ''{{text}}'' preceding (drop 8 (c # cs)) replaceValue
          @ replace_text_token (preceding @ ''{{text}}'') (drop 8 (c # cs)) replaceValue
      else c # replace_text_token (preceding @ [c]) cs replaceValue)"
  by pat_completeness auto
termination
  by (relation "measure (\<lambda>(preceding, s, replaceValue). length s)") auto

text \<open>
  The substitution the specification describes: every occurrence of the token is
  replaced by the text itself.
\<close>

function substitute_text_token :: "string \<Rightarrow> string \<Rightarrow> string" where
  "substitute_text_token [] text = []"
| "substitute_text_token (c # cs) text =
     (if starts_with (c # cs) ''{{text}}'' then
        text @ substitute_text_token (drop 8 (c # cs)) text
      else c # substitute_text_token cs text)"
  by pat_completeness auto
termination
  by (relation "measure (\<lambda>(s, text). length s)") auto

definition userContent :: "string option \<Rightarrow> string \<Rightarrow> string" where
  "userContent userPrompt inputText =
     (case userPrompt of
        None \<Rightarrow> inputText
      | Some up \<Rightarrow>
          if trim up \<noteq> [] then
            (let prompt = trim up in
             if str_includes prompt ''{{text}}'' then replace_text_token [] prompt inputText
             else prompt @ [LF, LF] @ inputText)
          else inputText)"

definition messages :: "string option \<Rightarrow> string option \<Rightarrow> string \<Rightarrow> ChatMessage list" where
  "messages systemPrompt userPrompt inputText =
     (case systemPrompt of
        None \<Rightarrow> []
      | Some sp \<Rightarrow> if trim sp \<noteq> [] then [\<lparr>role = System, content = trim sp\<rparr>] else [])
     @ [\<lparr>role = User, content = userContent userPrompt inputText\<rparr>]"

section \<open>Transport\<close>

text \<open>
  What the request object reports, once: a response with its status and text, a network
  failure, or the timeout.
\<close>

datatype xhr_event = Load nat "string option" | NetworkFailure | TimedOut

record response =
  status :: nat
  data :: json

text \<open>
  The \<open>onload\<close> handler. \<open>JSON.parse\<close> belongs to the host: it is the parameter
  \<open>JSON_parse\<close>, with \<open>None\<close> for a thrown SyntaxError.
\<close>

definition onload :: "(string \<Rightarrow> json option) \<Rightarrow> nat \<Rightarrow> string option \<Rightarrow> thrown + response" where
  "onload JSON_parse st xhr_responseText =
     (let responseText = (case xhr_responseText of None \<Rightarrow> [] | Some t \<Rightarrow> t);
          parsed =
            (if 0 < length (trim responseText) then
               (case JSON_parse responseText of Some v \<Rightarrow> v | None \<Rightarrow> JStr responseText)
             else JStr responseText)
      in if 200 \<le> st \<and> st < 300 then Inr \<lparr>status = st, data = parsed\<rparr>
         else Inl (HttpStatusError st parsed))"

definition postJson :: "(string \<Rightarrow> json option) \<Rightarrow> xhr_event \<Rightarrow> thrown + response" where
  "postJson JSON_parse ev =
     (case ev of
        Load st xhr_responseText \<Rightarrow> onload JSON_parse st xhr_responseText
      | NetworkFailure \<Rightarrow> Inl (Error ''Network request failed'')
      | TimedOut \<Rightarrow> Inl (Error ''Request timeout''))"

section \<open>Error classification\<close>

text \<open>The decimal digits of a status, as the template literal prints it.\<close>

definition digit_char :: "nat \<Rightarrow> char" where
  "digit_char d = ''0123456789'' ! d"

fun show_nat :: "nat \<Rightarrow> string" where
  "show_nat n =
     (if n < 10 then [digit_char n]
      else show_nat (n div 10) @ [digit_char (n mod 10)])"

text \<open>The message the \<open>catch\<close> block of \<open>run\<close> computes.\<close>

definition errorMsg :: "thrown \<Rightarrow> string" where
  "errorMsg error =
     (case error of
        HttpStatusError st body \<Rightarrow>
          (let apiMessage =
             (if truthy body \<and> typeof body = ''object'' then
                (let apiError = get_prop body ''error'' in
                 if truthy apiError \<and> typeof apiError = ''object'' then
                   (case get_prop apiError ''message'' of JStr m \<Rightarrow> Some m | _ \<Rightarrow> None)
                 else None)
              else (case body of JStr s \<Rightarrow> Some s | _ \<Rightarrow> None))
           in ''API Error '' @ show_nat st @ '': ''
                @ (case apiMessage of Some m \<Rightarrow> m | None \<Rightarrow> ''Request failed''))
      | Error message \<Rightarrow> ''Network/Error: '' @ message
      | NonError \<Rightarrow> ''Unknown Error'')"

text \<open>
  The message the specification describes for a status failure: \<open>body.error.message\<close>
  when the body is an object whose \<open>error\<close> field is an object with a string
  \<open>message\<close>, else the body itself when it is a string, else a generic text.
\<close>

definition status_message :: "json \<Rightarrow> string" where
  "status_message body =
     (case body of
        JObj members \<Rightarrow>
          (case map_of members ''error'' of
             Some (JObj err) \<Rightarrow>
               (case map_of err ''message'' of Some (JStr m) \<Rightarrow> m | _ \<Rightarrow> ''Request failed'')
           | _ \<Rightarrow> ''Request failed'')
      | JStr s \<Rightarrow> s
      | _ \<Rightarrow> ''Request failed'')"

section \<open>The action\<close>

record ExtensionOptions =
  apikey :: "string option"
  model :: "string option"
  systemPrompt :: "string option"
  userPrompt :: "string option"
  temperature :: "string option"
  maxTokens :: "string option"
  responseHandling :: string

definition DEFAULT_MODEL :: string where
  "DEFAULT_MODEL = ''google/gemini-3-flash-preview''"

text \<open>The calls the action makes on the host: its three output sinks and \<open>print\<close>.\<close>

datatype effect =
    CopyText string
  | ShowText string bool
  | PasteText string
  | Print string

record ChatRequest =
  request_model :: string
  request_messages :: "ChatMessage list"
  request_temperature :: jsnum
  max_tokens :: jsnum

text \<open>The dispatch on \<open>options.responseHandling\<close>; \<open>input_text\<close> is \<open>input.text\<close>.\<close>

definition handleResponse :: "string \<Rightarrow> string \<Rightarrow> string \<Rightarrow> effect list" where
  "handleResponse mode input_text reply =
     (if mode = ''copy'' then [CopyText reply]
      else if mode = ''show'' then [ShowText reply True]
      else if mode = ''replace'' then [PasteText reply]
      else [PasteText (input_text @ [LF, LF] @ reply)])"

text \<open>
  One invocation of \<open>run\<close>: the request posted if any, the host calls made in order,
  and how the promise settles (\<open>Inl\<close> the value it rejects with). The sinks and
  \<open>print\<close> are taken to return normally.
\<close>

record run_result =
  posted :: "ChatRequest option"
  effects :: "effect list"
  outcome :: "thrown + unit"

definition run ::
  "(string \<Rightarrow> jsnum) \<Rightarrow> (string \<Rightarrow> json option) \<Rightarrow> string \<Rightarrow> ExtensionOptions \<Rightarrow> xhr_event
     \<Rightarrow> run_result" where
  "run parseFloat JSON_parse input_text options ev =
     (let key = trim (case apikey options of None \<Rightarrow> [] | Some k \<Rightarrow> k) in
      if key = [] then
        \<lparr>posted = None, effects = [],
         outcome = Inl (Error ''Settings error: API Key is required'')\<rparr>
      else
        let inputText = trim input_text;
            request =
              \<lparr>request_model = trim (case model options of None \<Rightarrow> DEFAULT_MODEL | Some m \<Rightarrow> m),
               request_messages = messages (systemPrompt options) (userPrompt options) inputText,
               request_temperature = parseTemperature parseFloat (temperature options),
               max_tokens = parseMaxTokens (maxTokens options)\<rparr>;
            attempt =
              (case postJson JSON_parse ev of
                 Inl error \<Rightarrow> Inl error
               | Inr response \<Rightarrow>
                   (case extractReply (data response) of
                      Inl error \<Rightarrow> Inl error
                    | Inr reply \<Rightarrow>
                        Inr (handleResponse (responseHandling options) input_text reply)))
        in case attempt of
             Inr calls \<Rightarrow> \<lparr>posted = Some request, effects = calls, outcome = Inr ()\<rparr>
           | Inl error \<Rightarrow>
               \<lparr>posted = Some request, effects = [Print (errorMsg error)],
                outcome = Inl (Error (errorMsg error))\<rparr>)"

section \<open>Sample host parsers\<close>

text \<open>
  A few values of \<open>Number.parseFloat\<close> and \<open>JSON.parse\<close>, for running the program
  on concrete inputs.
\<close>

definition sample_parseFloat :: "string \<Rightarrow> jsnum" where
  "sample_parseFloat s =
     (if s = ''1'' then Fin 1
      else if s = ''0.5'' then Fin (1 / 2)
      else if s = ''3.5'' then Fin (7 / 2)
      else if s = ''-1'' then Fin (- 1)
      else if s = ''Infinity'' then PosInf
      else NaN)"

definition choices_empty_text :: string where
  "choices_empty_text = ''{'' @ [CHR 0x22] @ ''choices'' @ [CHR 0x22] @ '':[]}''"

definition completion_X_text :: string where
  "completion_X_text =
     ''{'' @ [CHR 0x22] @ ''choices'' @ [CHR 0x22] @ '':[{'' @ [CHR 0x22] @ ''message''
       @ [CHR 0x22] @ '':{'' @ [CHR 0x22] @ ''content'' @ [CHR 0x22] @ '':'' @ [CHR 0x22]
       @ ''X'' @ [CHR 0x22] @ ''}}]}''"

definition sample_JSON_parse :: "string \<Rightarrow> json option" where
  "sample_JSON_parse s =
     (if s = ''[]'' then Some (JArr [])
      else if s = choices_empty_text then Some (JObj [(''choices'', JArr [])])
      else if s = completion_X_text then
        Some (JObj [(''choices'', JArr [JObj [(''message'', JObj [(''content'', JStr ''X'')])]])])
      else None)"

definition sample_options :: ExtensionOptions where
  "sample_options =
     \<lparr>apikey = Some ''sk-or-1'', model = None, systemPrompt = None, userPrompt = None,
      temperature = None, maxTokens = None, responseHandling = ''append''\<rparr>"

declare show_nat.simps [simp del]
declare bit_length.simps [simp del]

section \<open>Trimming\<close>

lemma dropWhile_rev_dropWhile:
  "dropWhile P (rev (dropWhile P (rev (dropWhile P s)))) = rev (dropWhile P (rev (dropWhile P s)))"
proof (cases "dropWhile P s")
  case Nil
  show ?thesis unfolding Nil by simp
next
  case (Cons x xs)
  then have nP: "\<not> P x"
    by (metis hd_dropWhile list.sel(1) list.distinct(1))
  have "rev (x # xs) = rev xs @ [x]"
    by simp
  then have "dropWhile P (rev (x # xs)) =
      dropWhile P (rev xs) @ (if \<forall>y\<in>set (rev xs). P y then dropWhile P [x] else [x])"
    by (auto simp: dropWhile_append)
  with nP have "\<exists>ys. rev (dropWhile P (rev (x # xs))) = x # ys"
    by (auto split: if_splits)
  then obtain ys where "rev (dropWhile P (rev (x # xs))) = x # ys"
    by blast
  with Cons nP show ?thesis
    by simp
qed

lemma trim_idem: "trim (trim s) = trim s"
  unfolding trim_def trimEnd_def trimStart_def
  by (simp add: dropWhile_rev_dropWhile)

lemma trim_Nil: "trim [] = []"
  by (simp add: trim_def trimEnd_def trimStart_def)

section \<open>The reply extractor rejects every malformed body\<close>

lemma normalizeReplyContent_trimmed:
  "trim (normalizeReplyContent c) = normalizeReplyContent c"
  unfolding normalizeReplyContent_def
  by (cases c) (simp_all add: trim_idem trim_Nil)

lemma extractReply_malformed:
  "reply_content body = None \<Longrightarrow> \<exists>e. extractReply body = Inl e"
  unfolding reply_content_def extractReply_def
  by (auto simp: Let_def normalizeReplyContent_def split: json.splits option.splits list.splits)

lemma extractReply_well_formed:
  "reply_content body = Some c \<Longrightarrow>
   extractReply body =
     (if normalizeReplyContent c = [] then Inl (Error ''API Error: empty completion message'')
      else Inr (normalizeReplyContent c))"
  unfolding reply_content_def extractReply_def
  by (auto simp: Let_def split: json.splits option.splits list.splits)

lemma part_text_entry_text: "part_text part = entry_text part"
  by (cases part) (auto simp: part_text_def split: option.splits json.splits)

lemma normalizeReplyContent_spec: "normalizeReplyContent c = normalized_content c"
proof -
  have "part_text = entry_text"
    by (rule ext) (rule part_text_entry_text)
  then show ?thesis
    by (cases c) (simp_all add: normalizeReplyContent_def)
qed

text \<open>
  Claim C1. A body that deviates from the required shape (not a non-null object, no
  or an empty \<open>choices\<close> array, a first choice that is no object, no or a non-object
  \<open>message\<close>, a \<open>content\<close> that is neither a string nor an array) makes
  \<open>extractReply\<close> fail; a body of the right shape whose content, normalized as the
  specification describes, is empty fails with the empty-completion message; every
  other body gives that normalized content, a non-empty string that trimming leaves
  unchanged.
\<close>

theorem extractReply_fails_or_trimmed:
  "(reply_content body = None \<longrightarrow> (\<exists>e. extractReply body = Inl e))
   \<and> (\<forall>c. reply_content body = Some c \<and> normalized_content c = [] \<longrightarrow>
          extractReply body = Inl (Error ''API Error: empty completion message''))
   \<and> (\<forall>c. reply_content body = Some c \<and> normalized_content c \<noteq> [] \<longrightarrow>
          (\<exists>reply. extractReply body = Inr reply \<and> reply = normalized_content c
             \<and> reply \<noteq> [] \<and> trim reply = reply))"
  using extractReply_malformed [of body] extractReply_well_formed [of body]
    normalizeReplyContent_trimmed
  by (auto simp: normalizeReplyContent_spec)

theorem extractReply_fails_or_trimmed_witness:
  "reply_content (JObj [(''choices'', JArr [])]) = None
   \<and> extractReply (JObj [(''choices'', JArr [])])
       = Inl (Error ''API Error: no completion choices returned'')
   \<and> reply_content
         (JObj [(''choices'', JArr [JObj [(''message'', JObj [(''content'', JArr [JObj []])])]])])
       = Some (JArr [JObj []])
   \<and> normalized_content (JArr [JObj []]) = []
   \<and> extractReply
         (JObj [(''choices'', JArr [JObj [(''message'', JObj [(''content'', JArr [JObj []])])]])])
       = Inl (Error ''API Error: empty completion message'')
   \<and> reply_content
         (JObj [(''choices'', JArr [JObj [(''message'', JObj [(''content'', JStr '' hi '')])]])])
       = Some (JStr '' hi '')
   \<and> normalized_content (JStr '' hi '') = ''hi''
   \<and> extractReply
         (JObj [(''choices'', JArr [JObj [(''message'', JObj [(''content'', JStr '' hi '')])]])])
       = Inr ''hi''
   \<and> reply_content
         (JObj [(''choices'', JArr [JObj [(''message'', JObj [(''content'',
            JArr [JStr ''hello'', JObj [(''text'', JStr '' world '')], JNull])])]])])
       = Some (JArr [JStr ''hello'', JObj [(''text'', JStr '' world '')], JNull])
   \<and> normalized_content (JArr [JStr ''hello'', JObj [(''text'', JStr '' world '')], JNull])
       = ''hello world''
   \<and> extractReply
         (JObj [(''choices'', JArr [JObj [(''message'', JObj [(''content'',
            JArr [JStr ''hello'', JObj [(''text'', JStr '' world '')], JNull])])]])])
       = Inr ''hello world''"
  using extractReply_fails_or_trimmed [of "JObj [(''choices'', JArr [])]"]
    extractReply_fails_or_trimmed
      [of "JObj [(''choices'', JArr [JObj [(''message'', JObj [(''content'', JArr [JObj []])])]])]"]
    extractReply_fails_or_trimmed
      [of "JObj [(''choices'', JArr [JObj [(''message'', JObj [(''content'', JStr '' hi '')])]])]"]
    extractReply_fails_or_trimmed
      [of "JObj [(''choices'', JArr [JObj [(''message'', JObj [(''content'',
            JArr [JStr ''hello'', JObj [(''text'', JStr '' world '')], JNull])])]])]"]
  by (simp add: reply_content_def extractReply_def normalizeReplyContent_def part_text_def
      trim_def trimEnd_def trimStart_def is_ws_def)

section \<open>Transport\<close>

text \<open>
  Claim C2. For a response with status \<open>st\<close> and text \<open>txt\<close>, a status in
  \<open>[200, 300)\<close> resolves with the status and the body, any other status rejects with an
  \<open>HttpStatusError\<close> carrying the status and the body; the body is the parsed JSON
  when the text parses and the raw text otherwise, and a text that does not parse
  never makes the step fail. (\<open>JSON.parse\<close> rejects a blank text, which the handler
  does not hand to it.)
\<close>

theorem postJson_status_and_body:
  assumes "trim (case txt of None \<Rightarrow> [] | Some t \<Rightarrow> t) = [] \<Longrightarrow>
      JSON_parse (case txt of None \<Rightarrow> [] | Some t \<Rightarrow> t) = None"
  shows "postJson JSON_parse (Load st txt) =
     (let text = (case txt of None \<Rightarrow> [] | Some t \<Rightarrow> t);
          body = (case JSON_parse text of Some v \<Rightarrow> v | None \<Rightarrow> JStr text)
      in if 200 \<le> st \<and> st < 300 then Inr \<lparr>status = st, data = body\<rparr>
         else Inl (HttpStatusError st body))"
  using assms unfolding postJson_def onload_def
  by (auto simp: Let_def split: option.splits)

theorem postJson_status_and_body_witness:
  "trim '' '' = [] \<and> sample_JSON_parse '' '' = None
   \<and> postJson sample_JSON_parse (Load 200 (Some '' '')) = Inr \<lparr>status = 200, data = JStr '' ''\<rparr>
   \<and> postJson sample_JSON_parse (Load 204 (Some ''[]'')) = Inr \<lparr>status = 204, data = JArr []\<rparr>
   \<and> postJson sample_JSON_parse (Load 503 (Some ''oops''))
       = Inl (HttpStatusError 503 (JStr ''oops''))
   \<and> postJson sample_JSON_parse (Load 300 None) = Inl (HttpStatusError 300 (JStr []))"
  using postJson_status_and_body [of "Some '' ''" sample_JSON_parse 200]
    postJson_status_and_body [of "Some ''[]''" sample_JSON_parse 204]
    postJson_status_and_body [of "Some ''oops''" sample_JSON_parse 503]
    postJson_status_and_body [of None sample_JSON_parse 300]
  by (simp add: sample_JSON_parse_def choices_empty_text_def completion_X_text_def
      trim_def trimEnd_def trimStart_def is_ws_def)

section \<open>Error classification\<close>

text \<open>
  Claim C3. A status failure with status \<open>st\<close> and body \<open>body\<close> is classified as
  \<open>API Error st: m\<close>, where \<open>m\<close> is \<open>body.error.message\<close> when the body is an object
  whose \<open>error\<close> field is an object with a string \<open>message\<close>, else the body itself
  when it is a string, else \<open>Request failed\<close>; a 429 response whose body is the
  object with \<open>error.message = rate limited\<close> gives \<open>API Error 429: rate limited\<close>.
\<close>

theorem errorMsg_status_failure:
  "errorMsg (HttpStatusError st body) = ''API Error '' @ show_nat st @ '': '' @ status_message body
   \<and> errorMsg (HttpStatusError 429 (JObj [(''error'', JObj [(''message'', JStr ''rate limited'')])]))
       = ''API Error 429: rate limited''"
proof
  show "errorMsg (HttpStatusError st body)
      = ''API Error '' @ show_nat st @ '': '' @ status_message body"
    unfolding errorMsg_def status_message_def
    by (cases body) (auto simp: Let_def split: option.splits json.splits)
  show "errorMsg (HttpStatusError 429 (JObj [(''error'', JObj [(''message'', JStr ''rate limited'')])]))
      = ''API Error 429: rate limited''"
    by (simp add: errorMsg_def show_nat.simps digit_char_def)
qed

section \<open>The action: failure and success paths\<close>

lemma run_no_key:
  "trim (case apikey options of None \<Rightarrow> [] | Some k \<Rightarrow> k) = [] \<Longrightarrow>
   outcome (run pf jp input_text options ev) = Inl (Error ''Settings error: API Key is required'')
   \<and> effects (run pf jp input_text options ev) = []
   \<and> posted (run pf jp input_text options ev) = None"
  by (simp add: run_def)

lemma run_transport_failure:
  "trim (case apikey options of None \<Rightarrow> [] | Some k \<Rightarrow> k) \<noteq> [] \<Longrightarrow>
   postJson jp ev = Inl e \<Longrightarrow>
   outcome (run pf jp input_text options ev) = Inl (Error (errorMsg e))
   \<and> effects (run pf jp input_text options ev) = [Print (errorMsg e)]"
  by (simp add: run_def Let_def)

lemma run_extract_failure:
  "trim (case apikey options of None \<Rightarrow> [] | Some k \<Rightarrow> k) \<noteq> [] \<Longrightarrow>
   postJson jp ev = Inr response \<Longrightarrow> extractReply (data response) = Inl e \<Longrightarrow>
   outcome (run pf jp input_text options ev) = Inl (Error (errorMsg e))
   \<and> effects (run pf jp input_text options ev) = [Print (errorMsg e)]"
  by (simp add: run_def Let_def)

lemma run_success:
  "trim (case apikey options of None \<Rightarrow> [] | Some k \<Rightarrow> k) \<noteq> [] \<Longrightarrow>
   postJson jp ev = Inr response \<Longrightarrow> extractReply (data response) = Inr reply \<Longrightarrow>
   outcome (run pf jp input_text options ev) = Inr ()
   \<and> effects (run pf jp input_text options ev)
       = handleResponse (responseHandling options) input_text reply"
  by (simp add: run_def Let_def)

lemma extractReply_throws_Error:
  "extractReply body = Inl e \<Longrightarrow> \<exists>m. e = Error m"
  unfolding extractReply_def
  by (auto simp: Let_def split: json.splits list.splits if_splits)

lemma postJson_resolves:
  "postJson jp ev = Inr response \<Longrightarrow>
   \<exists>st txt. ev = Load st txt \<and> 200 \<le> st \<and> st < 300 \<and> status response = st"
  unfolding postJson_def onload_def
  by (auto simp: Let_def split: xhr_event.splits if_splits)

lemmas sample_run_simps =
  run_def sample_options_def sample_JSON_parse_def choices_empty_text_def completion_X_text_def
  postJson_def onload_def extractReply_def normalizeReplyContent_def errorMsg_def
  handleResponse_def Let_def trim_def trimEnd_def trimStart_def is_ws_def

lemma errorMsg_formats:
  "errorMsg (HttpStatusError st body) = ''API Error '' @ show_nat st @ '': '' @ status_message body"
  "errorMsg (Error m) = ''Network/Error: '' @ m"
  "errorMsg NonError = ''Unknown Error''"
proof -
  show "errorMsg (HttpStatusError st body)
      = ''API Error '' @ show_nat st @ '': '' @ status_message body"
    unfolding errorMsg_def status_message_def
    by (cases body) (auto simp: Let_def split: option.splits json.splits)
qed (simp_all add: errorMsg_def)

text \<open>
  Claim C4, as the code has it. A missing API key is checked before the \<open>try\<close> block:
  the invocation fails with \<open>Settings error: API Key is required\<close>, which is neither
  printed nor passed through the classifier. Every other failed invocation produces
  exactly one message, the classifier's message for the failure that occurred: a
  status failure gives \<open>API Error st: m\<close>, a network failure, a timeout and a rejected
  reply give \<open>Network/Error: \<close> followed by the failure's own message; that message
  is printed once and raised to the caller, and no invocation fails in any other way.
\<close>

theorem run_failure_printed_and_raised:
  "(trim (case apikey options of None \<Rightarrow> [] | Some k \<Rightarrow> k) = [] \<longrightarrow>
      outcome (run pf jp input_text options ev)
        = Inl (Error ''Settings error: API Key is required'')
      \<and> effects (run pf jp input_text options ev) = [])
   \<and> (trim (case apikey options of None \<Rightarrow> [] | Some k \<Rightarrow> k) \<noteq> [] \<longrightarrow>
        (\<forall>st body. postJson jp ev = Inl (HttpStatusError st body) \<longrightarrow>
           outcome (run pf jp input_text options ev)
             = Inl (Error (''API Error '' @ show_nat st @ '': '' @ status_message body))
           \<and> effects (run pf jp input_text options ev)
             = [Print (''API Error '' @ show_nat st @ '': '' @ status_message body)])
      \<and> (\<forall>m. postJson jp ev = Inl (Error m)
              \<or> (\<exists>response. postJson jp ev = Inr response
                    \<and> extractReply (data response) = Inl (Error m)) \<longrightarrow>
           outcome (run pf jp input_text options ev) = Inl (Error (''Network/Error: '' @ m))
           \<and> effects (run pf jp input_text options ev) = [Print (''Network/Error: '' @ m)])
      \<and> (\<forall>t. outcome (run pf jp input_text options ev) = Inl t \<longrightarrow>
           (\<exists>e. (postJson jp ev = Inl e
                  \<or> (\<exists>response. postJson jp ev = Inr response
                        \<and> extractReply (data response) = Inl e))
               \<and> t = Error (errorMsg e)
               \<and> effects (run pf jp input_text options ev) = [Print (errorMsg e)])))"
proof (intro conjI impI allI)
  assume "trim (case apikey options of None \<Rightarrow> [] | Some k \<Rightarrow> k) = []"
  then show "outcome (run pf jp input_text options ev)
        = Inl (Error ''Settings error: API Key is required'')"
    and "effects (run pf jp input_text options ev) = []"
    using run_no_key by blast+
next
  fix st body
  assume key: "trim (case apikey options of None \<Rightarrow> [] | Some k \<Rightarrow> k) \<noteq> []"
    and failed: "postJson jp ev = Inl (HttpStatusError st body)"
  from run_transport_failure [OF key failed, of pf input_text]
  show "outcome (run pf jp input_text options ev)
             = Inl (Error (''API Error '' @ show_nat st @ '': '' @ status_message body))"
    and "effects (run pf jp input_text options ev)
             = [Print (''API Error '' @ show_nat st @ '': '' @ status_message body)]"
    by (simp_all add: errorMsg_formats)
next
  fix m
  assume key: "trim (case apikey options of None \<Rightarrow> [] | Some k \<Rightarrow> k) \<noteq> []"
    and failed: "postJson jp ev = Inl (Error m)
              \<or> (\<exists>response. postJson jp ev = Inr response
                    \<and> extractReply (data response) = Inl (Error m))"
  from failed have "outcome (run pf jp input_text options ev) = Inl (Error (errorMsg (Error m)))
      \<and> effects (run pf jp input_text options ev) = [Print (errorMsg (Error m))]"
    using run_transport_failure [OF key, of jp ev "Error m" pf input_text]
      run_extract_failure [OF key, of jp ev _ "Error m" pf input_text]
    by blast
  then show "outcome (run pf jp input_text options ev) = Inl (Error (''Network/Error: '' @ m))"
    and "effects (run pf jp input_text options ev) = [Print (''Network/Error: '' @ m)]"
    by (simp_all add: errorMsg_formats)
next
  fix t
  assume key: "trim (case apikey options of None \<Rightarrow> [] | Some k \<Rightarrow> k) \<noteq> []"
    and out: "outcome (run pf jp input_text options ev) = Inl t"
  show "\<exists>e. (postJson jp ev = Inl e
                  \<or> (\<exists>response. postJson jp ev = Inr response
                        \<and> extractReply (data response) = Inl e))
               \<and> t = Error (errorMsg e)
               \<and> effects (run pf jp input_text options ev) = [Print (errorMsg e)]"
  proof (cases "postJson jp ev")
    case (Inl e)
    with key out run_transport_failure [of options jp ev e pf input_text] show ?thesis
      by auto
  next
    case (Inr response)
    show ?thesis
    proof (cases "extractReply (data response)")
      case (Inl e)
      with key out Inr run_extract_failure [of options jp ev response e pf input_text]
      show ?thesis by auto
    next
      case reply: (Inr reply)
      with key out Inr run_success [of options jp ev response reply pf input_text]
      show ?thesis by auto
    qed
  qed
qed

theorem run_failure_printed_and_raised_witness:
  "trim (case apikey (sample_options\<lparr>apikey := Some ''  ''\<rparr>) of None \<Rightarrow> [] | Some k \<Rightarrow> k) = []
   \<and> outcome (run sample_parseFloat sample_JSON_parse ''hello''
         (sample_options\<lparr>apikey := Some ''  ''\<rparr>) TimedOut)
       = Inl (Error ''Settings error: API Key is required'')
   \<and> effects (run sample_parseFloat sample_JSON_parse ''hello''
         (sample_options\<lparr>apikey := Some ''  ''\<rparr>) TimedOut) = []
   \<and> trim (case apikey sample_options of None \<Rightarrow> [] | Some k \<Rightarrow> k) \<noteq> []
   \<and> postJson sample_JSON_parse (Load 503 (Some ''oops'')) = Inl (HttpStatusError 503 (JStr ''oops''))
   \<and> outcome (run sample_parseFloat sample_JSON_parse ''hello'' sample_options
         (Load 503 (Some ''oops'')))
       = Inl (Error ''API Error 503: oops'')
   \<and> effects (run sample_parseFloat sample_JSON_parse ''hello'' sample_options
         (Load 503 (Some ''oops'')))
       = [Print ''API Error 503: oops'']
   \<and> postJson sample_JSON_parse TimedOut = Inl (Error ''Request timeout'')
   \<and> outcome (run sample_parseFloat sample_JSON_parse ''hello'' sample_options TimedOut)
       = Inl (Error ''Network/Error: Request timeout'')
   \<and> effects (run sample_parseFloat sample_JSON_parse ''hello'' sample_options TimedOut)
       = [Print ''Network/Error: Request timeout'']
   \<and> postJson sample_JSON_parse (Load 200 (Some choices_empty_text))
       = Inr \<lparr>status = 200, data = JObj [(''choices'', JArr [])]\<rparr>
   \<and> extractReply (JObj [(''choices'', JArr [])])
       = Inl (Error ''API Error: no completion choices returned'')
   \<and> outcome (run sample_parseFloat sample_JSON_parse ''hello'' sample_options
         (Load 200 (Some choices_empty_text)))
       = Inl (Error ''Network/Error: API Error: no completion choices returned'')"
  using run_failure_printed_and_raised
      [of "sample_options\<lparr>apikey := Some ''  ''\<rparr>" sample_parseFloat sample_JSON_parse "''hello''"
          TimedOut]
    run_failure_printed_and_raised
      [of sample_options sample_parseFloat sample_JSON_parse "''hello''" "Load 503 (Some ''oops'')"]
    run_failure_printed_and_raised
      [of sample_options sample_parseFloat sample_JSON_parse "''hello''" TimedOut]
    run_failure_printed_and_raised
      [of sample_options sample_parseFloat sample_JSON_parse "''hello''"
          "Load 200 (Some choices_empty_text)"]
  by (simp add: sample_run_simps show_nat.simps digit_char_def)

text \<open>
  Claim C4 as stated fails for the missing API key: the invocation fails, nothing is
  printed, and the message raised has none of the classifier's three formats.
\<close>

theorem run_missing_key_counterexample:
  "outcome (run sample_parseFloat sample_JSON_parse ''hello''
       (sample_options\<lparr>apikey := None\<rparr>) TimedOut)
     = Inl (Error ''Settings error: API Key is required'')
   \<and> effects (run sample_parseFloat sample_JSON_parse ''hello''
       (sample_options\<lparr>apikey := None\<rparr>) TimedOut) = []
   \<and> \<not> starts_with ''Settings error: API Key is required'' ''API Error ''
   \<and> \<not> starts_with ''Settings error: API Key is required'' ''Network/Error: ''
   \<and> ''Settings error: API Key is required'' \<noteq> ''Unknown Error''"
  by (simp add: sample_run_simps)

text \<open>
  Claim C10. When a response with a status in \<open>[200, 300)\<close> carries a body that the
  reply extractor rejects, the message raised and printed is the extractor's message
  behind the prefix \<open>Network/Error: \<close> of the network and timeout branch; the body
  \<open>{"choices":[]}\<close> gives
  \<open>Network/Error: API Error: no completion choices returned\<close>.
\<close>

theorem run_malformed_reply_message:
  assumes "trim (case apikey options of None \<Rightarrow> [] | Some k \<Rightarrow> k) \<noteq> []"
    and "postJson jp (Load st txt) = Inr response"
    and "extractReply (data response) = Inl e"
  shows "200 \<le> st \<and> st < 300
    \<and> (\<exists>m. e = Error m
          \<and> outcome (run pf jp input_text options (Load st txt))
              = Inl (Error (''Network/Error: '' @ m))
          \<and> effects (run pf jp input_text options (Load st txt))
              = [Print (''Network/Error: '' @ m)])
    \<and> (data response = JObj [(''choices'', JArr [])] \<longrightarrow>
          outcome (run pf jp input_text options (Load st txt))
            = Inl (Error ''Network/Error: API Error: no completion choices returned''))"
proof -
  from assms(2) have range: "200 \<le> st \<and> st < 300"
    using postJson_resolves by fastforce
  from assms(3) obtain m where m: "e = Error m"
    using extractReply_throws_Error by blast
  have failed: "outcome (run pf jp input_text options (Load st txt)) = Inl (Error (errorMsg e))
      \<and> effects (run pf jp input_text options (Load st txt)) = [Print (errorMsg e)]"
    using assms by (rule run_extract_failure)
  have "data response = JObj [(''choices'', JArr [])] \<longrightarrow>
      e = Error ''API Error: no completion choices returned''"
    using assms(3) by (auto simp: extractReply_def)
  with range m failed show ?thesis
    by (auto simp: errorMsg_def)
qed

theorem run_malformed_reply_message_witness:
  "trim (case apikey sample_options of None \<Rightarrow> [] | Some k \<Rightarrow> k) \<noteq> []
   \<and> postJson sample_JSON_parse (Load 200 (Some choices_empty_text))
       = Inr \<lparr>status = 200, data = JObj [(''choices'', JArr [])]\<rparr>
   \<and> extractReply (JObj [(''choices'', JArr [])])
       = Inl (Error ''API Error: no completion choices returned'')
   \<and> outcome (run sample_parseFloat sample_JSON_parse ''hello'' sample_options
         (Load 200 (Some choices_empty_text)))
       = Inl (Error ''Network/Error: API Error: no completion choices returned'')
   \<and> effects (run sample_parseFloat sample_JSON_parse ''hello'' sample_options
         (Load 200 (Some choices_empty_text)))
       = [Print ''Network/Error: API Error: no completion choices returned'']"
  using run_malformed_reply_message
      [of sample_options sample_JSON_parse 200 "Some choices_empty_text"
          "\<lparr>status = 200, data = JObj [(''choices'', JArr [])]\<rparr>"
          "Error ''API Error: no completion choices returned''" sample_parseFloat "''hello''"]
  by (simp add: sample_run_simps)

text \<open>
  Claim C6. On the success path the reply goes to exactly one sink and the invocation
  does not fail: mode \<open>copy\<close> calls only the clipboard sink with the reply, \<open>show\<close>
  only the preview sink with the reply and the preview flag, \<open>replace\<close> only the paste
  sink with the reply, and every other mode (\<open>append\<close>, or a value outside the
  declared set) only the paste sink with the original input, two line feeds and the
  reply.
\<close>

theorem run_routes_reply_to_one_sink:
  assumes "trim (case apikey options of None \<Rightarrow> [] | Some k \<Rightarrow> k) \<noteq> []"
    and "postJson jp ev = Inr response"
    and "extractReply (data response) = Inr reply"
  shows "outcome (run pf jp input_text options ev) = Inr ()
    \<and> effects (run pf jp input_text options ev) =
        (if responseHandling options = ''copy'' then [CopyText reply]
         else if responseHandling options = ''show'' then [ShowText reply True]
         else if responseHandling options = ''replace'' then [PasteText reply]
         else [PasteText (input_text @ [LF, LF] @ reply)])"
  using run_success [OF assms, of pf input_text]
  by (simp add: handleResponse_def)

theorem run_routes_reply_to_one_sink_witness:
  "trim (case apikey sample_options of None \<Rightarrow> [] | Some k \<Rightarrow> k) \<noteq> []
   \<and> postJson sample_JSON_parse (Load 200 (Some completion_X_text))
       = Inr \<lparr>status = 200,
              data = JObj [(''choices'', JArr [JObj [(''message'', JObj [(''content'', JStr ''X'')])]])]\<rparr>
   \<and> extractReply (JObj [(''choices'', JArr [JObj [(''message'', JObj [(''content'', JStr ''X'')])]])])
       = Inr ''X''
   \<and> effects (run sample_parseFloat sample_JSON_parse '' hello '' (sample_options\<lparr>responseHandling := ''copy''\<rparr>)
         (Load 200 (Some completion_X_text))) = [CopyText ''X'']
   \<and> effects (run sample_parseFloat sample_JSON_parse '' hello '' (sample_options\<lparr>responseHandling := ''bogus''\<rparr>)
         (Load 200 (Some completion_X_text))) = [PasteText ('' hello '' @ [LF, LF] @ ''X'')]
   \<and> effects (run sample_parseFloat sample_JSON_parse '' hello '' sample_options
         (Load 200 (Some completion_X_text))) = [PasteText ('' hello '' @ [LF, LF] @ ''X'')]
   \<and> outcome (run sample_parseFloat sample_JSON_parse '' hello '' (sample_options\<lparr>responseHandling := ''bogus''\<rparr>)
         (Load 200 (Some completion_X_text))) = Inr ()"
  using run_routes_reply_to_one_sink
      [of "sample_options\<lparr>responseHandling := ''copy''\<rparr>" sample_JSON_parse
          "Load 200 (Some completion_X_text)"
          "\<lparr>status = 200,
            data = JObj [(''choices'', JArr [JObj [(''message'', JObj [(''content'', JStr ''X'')])]])]\<rparr>"
          "''X''" sample_parseFloat "'' hello ''"]
    run_routes_reply_to_one_sink
      [of "sample_options\<lparr>responseHandling := ''bogus''\<rparr>" sample_JSON_parse
          "Load 200 (Some completion_X_text)"
          "\<lparr>status = 200,
            data = JObj [(''choices'', JArr [JObj [(''message'', JObj [(''content'', JStr ''X'')])]])]\<rparr>"
          "''X''" sample_parseFloat "'' hello ''"]
    run_routes_reply_to_one_sink
      [of sample_options sample_JSON_parse
          "Load 200 (Some completion_X_text)"
          "\<lparr>status = 200,
            data = JObj [(''choices'', JArr [JObj [(''message'', JObj [(''content'', JStr ''X'')])]])]\<rparr>"
          "''X''" sample_parseFloat "'' hello ''"]
  by (simp add: sample_run_simps)

section \<open>Prompt assembly\<close>

lemma getSubstitution_plain:
  "CHR ''$'' \<notin> set t \<Longrightarrow> getSubstitution m p f t = t"
  by (induction m p f t rule: getSubstitution.induct) auto

lemma replace_text_token_plain:
  "CHR ''$'' \<notin> set t \<Longrightarrow> replace_text_token p s t = substitute_text_token s t"
  by (induction p s t rule: replace_text_token.induct) (simp_all add: getSubstitution_plain)

text \<open>
  For an input text without a dollar sign the user content is what the specification
  describes: the token substituted everywhere, or the prompt, two line feeds and the
  text, or the text alone.
\<close>

lemma userContent_plain_text:
  assumes "CHR ''$'' \<notin> set inputText"
  shows "(\<forall>up. uprompt = Some up \<and> trim up \<noteq> [] \<and> str_includes (trim up) ''{{text}}'' \<longrightarrow>
            userContent uprompt inputText = substitute_text_token (trim up) inputText)
       \<and> (\<forall>up. uprompt = Some up \<and> trim up \<noteq> [] \<and> \<not> str_includes (trim up) ''{{text}}'' \<longrightarrow>
            userContent uprompt inputText = trim up @ [LF, LF] @ inputText)
       \<and> ((uprompt = None \<or> (\<exists>up. uprompt = Some up \<and> trim up = [])) \<longrightarrow>
            userContent uprompt inputText = inputText)"
  using assms by (auto simp: userContent_def Let_def replace_text_token_plain)

text \<open>
  Claim C5 says that a prompt containing the token gets every occurrence replaced by
  the input text. The code passes the input text to \<open>replace\<close> as a replacement
  template, so a text with a dollar pattern is not inserted as it is: for the prompt
  \<open>Price: {{text}}\<close> and the text \<open>$$5\<close> the user content is \<open>Price: $5\<close>, where
  the substitution of the text gives \<open>Price: $$5\<close>.
\<close>

theorem userContent_dollar_text:
  "userContent (Some ''Price: {{text}}'') ''$$5'' = ''Price: $5''
   \<and> substitute_text_token ''Price: {{text}}'' ''$$5'' = ''Price: $$5''"
  by (simp add: userContent_def trim_def trimStart_def trimEnd_def is_ws_def Let_def)

text \<open>
  Claim C7. The message list holds a system message exactly when the trimmed system
  prompt is non-empty, then once and as the first element, and exactly one user
  message, which is the last element.
\<close>

theorem messages_shape:
  "(\<forall>sp. sprompt = Some sp \<and> trim sp \<noteq> [] \<longrightarrow>
       length (filter (\<lambda>m. role m = System) (messages sprompt uprompt inputText)) = 1
       \<and> hd (messages sprompt uprompt inputText) = \<lparr>role = System, content = trim sp\<rparr>)
   \<and> ((sprompt = None \<or> (\<exists>sp. sprompt = Some sp \<and> trim sp = [])) \<longrightarrow>
       filter (\<lambda>m. role m = System) (messages sprompt uprompt inputText) = [])
   \<and> length (filter (\<lambda>m. role m = User) (messages sprompt uprompt inputText)) = 1
   \<and> last (messages sprompt uprompt inputText)
       = \<lparr>role = User, content = userContent uprompt inputText\<rparr>"
  by (auto simp: messages_def split: option.splits)

theorem messages_shape_witness:
  "trim '' be brief '' \<noteq> []
   \<and> messages (Some '' be brief '') None ''hello''
     = [\<lparr>role = System, content = ''be brief''\<rparr>, \<lparr>role = User, content = ''hello''\<rparr>]
   \<and> trim ''  '' = []
   \<and> messages (Some ''  '') (Some ''Summarize this'') ''hello''
     = [\<lparr>role = User, content = ''Summarize this'' @ [LF, LF] @ ''hello''\<rparr>]
   \<and> messages None None ''hello'' = [\<lparr>role = User, content = ''hello''\<rparr>]"
  using messages_shape [of "Some '' be brief ''" None "''hello''"]
    messages_shape [of "Some ''  ''" "Some ''Summarize this''" "''hello''"]
    messages_shape [of None None "''hello''"]
  by (simp add: messages_def userContent_def trim_def trimStart_def trimEnd_def is_ws_def Let_def)

section \<open>Option normalizers\<close>

lemma clamp_eq: "v \<noteq> NaN \<Longrightarrow> Math_max (Fin 0) (Math_min (Fin 2) v) = clamp_0_2 v"
  by (cases v) (auto simp: Math_max_def Math_min_def clamp_0_2_def)

lemma clamp_range: "v \<noteq> NaN \<Longrightarrow> \<exists>x. clamp_0_2 v = Fin x \<and> 0 \<le> x \<and> x \<le> 2"
  by (cases v) (auto simp: clamp_0_2_def)

text \<open>
  Claim C8. Whatever the raw temperature, \<open>parseTemperature\<close> returns a number in
  \<open>[0, 2]\<close>; an absent input and an input that \<open>parseFloat\<close> does not parse give
  exactly 1; every other input gives the parsed value clamped into \<open>[0, 2]\<close>. (The
  host's \<open>parseFloat\<close> reads the default literal \<open>1\<close> as 1.)
\<close>

theorem parseTemperature_range:
  assumes "parseFloat ''1'' = Fin 1"
  shows "(\<exists>x. parseTemperature parseFloat raw = Fin x \<and> 0 \<le> x \<and> x \<le> 2)
    \<and> parseTemperature parseFloat None = Fin 1
    \<and> (\<forall>s. raw = Some s \<and> parseFloat s = NaN \<longrightarrow> parseTemperature parseFloat raw = Fin 1)
    \<and> (\<forall>s. raw = Some s \<and> parseFloat s \<noteq> NaN \<longrightarrow>
          parseTemperature parseFloat raw = clamp_0_2 (parseFloat s))"
proof (intro conjI allI impI)
  show "parseTemperature parseFloat None = Fin 1"
    using assms by (simp add: parseTemperature_def Math_max_def Math_min_def)
  show "\<exists>x. parseTemperature parseFloat raw = Fin x \<and> 0 \<le> x \<and> x \<le> 2"
  proof (cases "parseFloat (case raw of None \<Rightarrow> ''1'' | Some r \<Rightarrow> r) = NaN")
    case True
    then show ?thesis
      by (simp add: parseTemperature_def DEFAULT_TEMPERATURE_def)
  next
    case False
    then show ?thesis
      using clamp_range [OF False] by (simp add: parseTemperature_def clamp_eq)
  qed
next
  fix s assume "raw = Some s \<and> parseFloat s = NaN"
  then show "parseTemperature parseFloat raw = Fin 1"
    by (simp add: parseTemperature_def DEFAULT_TEMPERATURE_def)
next
  fix s assume "raw = Some s \<and> parseFloat s \<noteq> NaN"
  then show "parseTemperature parseFloat raw = clamp_0_2 (parseFloat s)"
    by (simp add: parseTemperature_def clamp_eq)
qed

theorem parseTemperature_range_witness:
  "sample_parseFloat ''1'' = Fin 1
   \<and> parseTemperature sample_parseFloat None = Fin 1
   \<and> sample_parseFloat ''abc'' = NaN
   \<and> parseTemperature sample_parseFloat (Some ''abc'') = Fin 1
   \<and> parseTemperature sample_parseFloat (Some ''3.5'') = Fin 2
   \<and> parseTemperature sample_parseFloat (Some ''-1'') = Fin 0
   \<and> parseTemperature sample_parseFloat (Some ''0.5'') = Fin (1 / 2)
   \<and> parseTemperature sample_parseFloat (Some ''Infinity'') = Fin 2"
  using parseTemperature_range [of sample_parseFloat "Some ''abc''"]
    parseTemperature_range [of sample_parseFloat "Some ''3.5''"]
    parseTemperature_range [of sample_parseFloat "Some ''-1''"]
    parseTemperature_range [of sample_parseFloat "Some ''0.5''"]
    parseTemperature_range [of sample_parseFloat "Some ''Infinity''"]
  by (simp add: sample_parseFloat_def clamp_0_2_def)





subsection \<open>Overflow of the digits read\<close>








end
